theory Spec2Isabelle
  imports Main "HOL-Library.Sublist"
begin

section \<open>JavaScript values of a request\<close>

text \<open>
  The handlers of \<^verbatim>\<open>server.js\<close> read the fields of \<^verbatim>\<open>req.body\<close> (parsed JSON) and of
  \<^verbatim>\<open>req.query\<close> (strings). A body field is absent (\<^verbatim>\<open>undefined\<close>), \<^verbatim>\<open>null\<close>, a boolean,
  a number or a string. Numbers are integers here: a JSON number with a fractional part, or
  one so large that its decimal rendering switches to exponent notation (from \<open>10\<^sup>2\<^sup>1\<close> on),
  is outside the model, and so are nested objects and arrays. Strings are ASCII text.
\<close>

datatype jsval = JUndefined | JNull | JBool bool | JNum int | JStr string

text \<open>What \<^verbatim>\<open>if (v)\<close> and \<^verbatim>\<open>!v\<close> test: \<^verbatim>\<open>undefined\<close>, \<^verbatim>\<open>null\<close>, \<^verbatim>\<open>false\<close>, \<^verbatim>\<open>0\<close> and
  the empty string are falsy.\<close>

fun truthy :: "jsval \<Rightarrow> bool" where
  "truthy JUndefined = False"
| "truthy JNull = False"
| "truthy (JBool b) = b"
| "truthy (JNum n) = (n \<noteq> 0)"
| "truthy (JStr s) = (s \<noteq> [])"

text \<open>A query parameter is absent or a string; \<^verbatim>\<open>if (name)\<close> holds for a non-empty string.\<close>

fun supplied :: "string option \<Rightarrow> bool" where
  "supplied None = False"
| "supplied (Some s) = (s \<noteq> [])"

subsection \<open>\<^verbatim>\<open>String.prototype.toLowerCase\<close>\<close>

definition lower_char :: "char \<Rightarrow> char" where
  "lower_char c =
     (case map_of (zip ''ABCDEFGHIJKLMNOPQRSTUVWXYZ'' ''abcdefghijklmnopqrstuvwxyz'') c of
        None \<Rightarrow> c
      | Some d \<Rightarrow> d)"

definition toLowerCase :: "string \<Rightarrow> string" where
  "toLowerCase s = map lower_char s"

subsection \<open>\<^verbatim>\<open>parseInt\<close>\<close>

text \<open>A JavaScript number that \<^verbatim>\<open>parseInt\<close> yields: \<^verbatim>\<open>NaN\<close> or an integer.\<close>

datatype jsnum = NaN | Num int

definition dec_digit :: "char \<Rightarrow> int option" where
  "dec_digit c = map_of (zip ''0123456789'' [0, 1, 2, 3, 4, 5, 6, 7, 8, 9]) c"

definition hex_digit :: "char \<Rightarrow> int option" where
  "hex_digit c =
     map_of (zip ''0123456789abcdefABCDEF''
               [0, 1, 2, 3, 4, 5, 6, 7, 8, 9, 10, 11, 12, 13, 14, 15, 10, 11, 12, 13, 14, 15]) c"

definition is_space :: "char \<Rightarrow> bool" where
  "is_space c = (c \<in> set [CHR '' '', CHR 0x09, CHR 0x0A, CHR 0x0B, CHR 0x0C, CHR 0x0D])"

text \<open>The longest prefix of digits in the given radix, read left to right; \<open>None\<close> when
  the prefix is empty.\<close>

fun digits_prefix :: "(char \<Rightarrow> int option) \<Rightarrow> int \<Rightarrow> int option \<Rightarrow> string \<Rightarrow> int option" where
  "digits_prefix dig radix acc [] = acc"
| "digits_prefix dig radix acc (c # cs) =
     (case dig c of
        None \<Rightarrow> acc
      | Some d \<Rightarrow>
          digits_prefix dig radix
            (Some ((case acc of None \<Rightarrow> 0 | Some a \<Rightarrow> a) * radix + d)) cs)"

text \<open>After the sign: an optional \<^verbatim>\<open>0x\<close> or \<^verbatim>\<open>0X\<close> selects radix 16, otherwise radix 10.\<close>

fun parse_magnitude :: "string \<Rightarrow> int option" where
  "parse_magnitude (a # b # cs) =
     (if a = CHR ''0'' \<and> (b = CHR ''x'' \<or> b = CHR ''X'')
      then digits_prefix hex_digit 16 None cs
      else digits_prefix dec_digit 10 None (a # b # cs))"
| "parse_magnitude cs = digits_prefix dec_digit 10 None cs"

fun parse_signed :: "string \<Rightarrow> jsnum" where
  "parse_signed [] = NaN"
| "parse_signed (c # cs) =
     (if c = CHR ''-'' then (case parse_magnitude cs of None \<Rightarrow> NaN | Some m \<Rightarrow> Num (- m))
      else if c = CHR ''+'' then (case parse_magnitude cs of None \<Rightarrow> NaN | Some m \<Rightarrow> Num m)
      else (case parse_magnitude (c # cs) of None \<Rightarrow> NaN | Some m \<Rightarrow> Num m))"

definition parseInt_string :: "string \<Rightarrow> jsnum" where
  "parseInt_string s = parse_signed (dropWhile is_space s)"

text \<open>\<^verbatim>\<open>parseInt(v)\<close> first converts \<open>v\<close> to a string: \<^verbatim>\<open>"undefined"\<close>, \<^verbatim>\<open>"null"\<close>,
  \<^verbatim>\<open>"true"\<close> and \<^verbatim>\<open>"false"\<close> have no digit prefix, an integer reads back as itself.\<close>

fun parseInt :: "jsval \<Rightarrow> jsnum" where
  "parseInt (JStr s) = parseInt_string s"
| "parseInt (JNum n) = Num n"
| "parseInt _ = NaN"


section \<open>The users collection\<close>

text \<open>
  A document of the users collection. \<open>user_password\<close> holds the stored hash; it is
  \<open>None\<close> in a projection that left the field out (\<^verbatim>\<open>.select('-password')\<close>, \<^verbatim>\<open>toJSON\<close>).
  The collection is the list of its documents in insertion order.
\<close>

record user =
  user_id :: string
  user_name :: string
  user_email :: string
  user_password :: "string option"
  user_age :: int
  user_createdAt :: nat

type_synonym store = "user list"

text \<open>A thrown JavaScript error: its \<^verbatim>\<open>name\<close>, its \<^verbatim>\<open>message\<close>, and for a Mongoose
  validation error the entries of \<^verbatim>\<open>error.errors\<close> as pairs of path and message.\<close>

record js_error =
  err_name :: string
  err_message :: string
  err_errors :: "(string \<times> string) list"

text \<open>
  What a request takes from its surroundings: the salted hash function of this save, the
  fresh identifier and the clock, the texts of the schema's validator messages (they are
  not in the source), and a failure of the database at the moment of the write, if any.
\<close>

record env =
  bcrypt_hash :: "string \<Rightarrow> string"
  object_id :: string
  date_now :: nat
  validator_message :: "string \<Rightarrow> string"
  save_fault :: "js_error option"

subsection \<open>The User model\<close>

text \<open>
  Modelled from the spec: \<^verbatim>\<open>models/User.js\<close> is not among the source files. The schema
  follows the data model of the specification and the schema table of the README:
  \<^verbatim>\<open>name: String (required)\<close>, \<^verbatim>\<open>email: String (required, unique, lowercase)\<close>,
  \<^verbatim>\<open>password: String (required, min 6 characters)\<close>, \<^verbatim>\<open>age: Number (required, 1-120)\<close>,
  \<^verbatim>\<open>createdAt: Date (auto-generated)\<close>; the password is hashed when the document is
  saved, and \<^verbatim>\<open>toJSON\<close> leaves the password out. Casting follows Mongoose: a String path
  takes a number or a boolean by its \<^verbatim>\<open>toString()\<close>, a Number path refuses \<^verbatim>\<open>NaN\<close>.
\<close>

fun nat_digits :: "nat \<Rightarrow> string" where
  "nat_digits n =
     (if n < 10 then [''0123456789'' ! n]
      else nat_digits (n div 10) @ [''0123456789'' ! (n mod 10)])"

definition int_toString :: "int \<Rightarrow> string" where
  "int_toString i = (if i < 0 then CHR ''-'' # nat_digits (nat (- i)) else nat_digits (nat i))"

text \<open>Modelled from the spec: the cast of a String path of the missing schema.\<close>

fun cast_string :: "jsval \<Rightarrow> string option" where
  "cast_string JUndefined = None"
| "cast_string JNull = None"
| "cast_string (JBool b) = Some (if b then ''true'' else ''false'')"
| "cast_string (JNum n) = Some (int_toString n)"
| "cast_string (JStr s) = Some s"

text \<open>Modelled from the spec: the document that \<^verbatim>\<open>new User(...)\<close> of the missing
  \<^verbatim>\<open>models/User.js\<close> builds, after casting and the \<^verbatim>\<open>lowercase\<close> setter of the email.\<close>

record new_user =
  nu_name :: "string option"
  nu_email :: "string option"
  nu_password :: "string option"
  nu_age :: jsnum

text \<open>Modelled from the spec: the constructor of the missing \<^verbatim>\<open>models/User.js\<close>.\<close>

definition User_new :: "jsval \<Rightarrow> jsval \<Rightarrow> jsval \<Rightarrow> jsnum \<Rightarrow> new_user" where
  "User_new name email password age =
     \<lparr> nu_name = cast_string name,
       nu_email = map_option toLowerCase (cast_string email),
       nu_password = cast_string password,
       nu_age = age \<rparr>"

text \<open>Modelled from the spec: the validators of the missing schema, \<^verbatim>\<open>required\<close>, the
  minimum length 6 of the password and the range 1 to 120 of the age.\<close>

fun required_ok :: "string option \<Rightarrow> bool" where
  "required_ok None = False"
| "required_ok (Some s) = (s \<noteq> [])"

fun minlength_ok :: "nat \<Rightarrow> string option \<Rightarrow> bool" where
  "minlength_ok n None = True"
| "minlength_ok n (Some s) = (n \<le> length s)"

fun age_ok :: "jsnum \<Rightarrow> bool" where
  "age_ok NaN = False"
| "age_ok (Num n) = (1 \<le> n \<and> n \<le> 120)"

text \<open>Modelled from the spec: the paths of the missing schema whose validators fail, in
  schema order.\<close>

definition invalid_paths :: "new_user \<Rightarrow> string list" where
  "invalid_paths d =
     (if required_ok (nu_name d) then [] else [''name'']) @
     (if required_ok (nu_email d) then [] else [''email'']) @
     (if required_ok (nu_password d) \<and> minlength_ok 6 (nu_password d) then [] else [''password'']) @
     (if age_ok (nu_age d) then [] else [''age''])"

definition validation_error :: "env \<Rightarrow> string list \<Rightarrow> js_error" where
  "validation_error e paths =
     \<lparr> err_name = ''ValidationError'',
       err_message = ''User validation failed'',
       err_errors = map (\<lambda>p. (p, validator_message e p)) paths \<rparr>"

text \<open>Modelled from the spec: the error of the unique index that the missing schema puts
  on \<^verbatim>\<open>email\<close> (named \<^verbatim>\<open>MongoError\<close> by older drivers).\<close>

definition duplicate_key_error :: js_error where
  "duplicate_key_error =
     \<lparr> err_name = ''MongoServerError'',
       err_message = ''E11000 duplicate key error'',
       err_errors = [] \<rparr>"

text \<open>
  Modelled from the spec: \<^verbatim>\<open>newUser.save()\<close> of the missing \<^verbatim>\<open>models/User.js\<close>: validate;
  hash the password; insert, which the database refuses when it fails itself or when the
  unique index already holds the email.
\<close>

definition save :: "env \<Rightarrow> store \<Rightarrow> new_user \<Rightarrow> js_error + (user \<times> store)" where
  "save e st d =
     (case (nu_name d, nu_email d, nu_password d, nu_age d) of
        (Some name, Some email, Some password, Num age) \<Rightarrow>
          if invalid_paths d \<noteq> [] then Inl (validation_error e (invalid_paths d))
          else
            (case save_fault e of
               Some err \<Rightarrow> Inl err
             | None \<Rightarrow>
                 if list_ex (\<lambda>u. user_email u = email) st then Inl duplicate_key_error
                 else
                   (let u = \<lparr> user_id = object_id e,
                              user_name = name,
                              user_email = email,
                              user_password = Some (bcrypt_hash e password),
                              user_age = age,
                              user_createdAt = date_now e \<rparr>
                    in Inr (u, st @ [u])))
      | _ \<Rightarrow> Inl (validation_error e (invalid_paths d)))"

text \<open>Modelled from the spec: \<^verbatim>\<open>toJSON\<close> of the missing \<^verbatim>\<open>models/User.js\<close>; the password
  hash never crosses the output boundary.\<close>

definition toJSON :: "user \<Rightarrow> user" where
  "toJSON u = u\<lparr> user_password := None \<rparr>"

text \<open>\<^verbatim>\<open>.select('-password')\<close>, the projection of \<^verbatim>\<open>server.js\<close>.\<close>

definition select_minus_password :: "user \<Rightarrow> user" where
  "select_minus_password u = u\<lparr> user_password := None \<rparr>"

text \<open>\<^verbatim>\<open>User.findOne({ email: e })\<close>: the first document with that email.\<close>

definition findOne :: "store \<Rightarrow> string \<Rightarrow> user option" where
  "findOne st e = find (\<lambda>u. user_email u = e) st"

section \<open>Responses\<close>

text \<open>
  \<^verbatim>\<open>res.status(n).json(...)\<close>: the status and the JSON object, by its shape:
  \<^verbatim>\<open>{success: false, message}\<close>, \<^verbatim>\<open>{success: false, message, errors}\<close>,
  \<^verbatim>\<open>{success: false, message, error}\<close>, \<^verbatim>\<open>{success: true, count, users}\<close>,
  \<^verbatim>\<open>{success: true, user}\<close>, \<^verbatim>\<open>{success: true, message, deletedUser}\<close> and
  \<^verbatim>\<open>{success: true, message, user}\<close>.
\<close>

datatype payload =
    Failure string
  | ValidationFailure string "string list"
  | InternalFailure string string
  | UserList nat "user list"
  | UserFound user
  | UserDeleted string user
  | UserCreated string user

record response =
  status :: nat
  json :: payload

section \<open>\<^verbatim>\<open>POST /api/users\<close>\<close>

record body =
  req_name :: jsval
  req_email :: jsval
  req_password :: jsval
  req_age :: jsval

text \<open>\<^verbatim>\<open>email.toLowerCase()\<close> throws a \<^verbatim>\<open>TypeError\<close> on a value that is not a string.\<close>

fun email_toLowerCase :: "jsval \<Rightarrow> js_error + string" where
  "email_toLowerCase (JStr s) = Inr (toLowerCase s)"
| "email_toLowerCase _ =
     Inl \<lparr> err_name = ''TypeError'',
           err_message = ''email.toLowerCase is not a function'',
           err_errors = [] \<rparr>"

text \<open>The \<^verbatim>\<open>catch\<close> block of the handler.\<close>

definition create_catch :: "js_error \<Rightarrow> response" where
  "create_catch error =
     (if err_name error = ''ValidationError''
      then \<lparr> status = 400, json = ValidationFailure ''Validation error'' (map snd (err_errors error)) \<rparr>
      else \<lparr> status = 500, json = InternalFailure ''Error creating user'' (err_message error) \<rparr>)"

text \<open>
  The handler up to the answer of \<^verbatim>\<open>await User.findOne(...)\<close>: \<open>Some r\<close> when it responds
  there, \<open>None\<close> when it goes on to create the document.
\<close>

definition post_users_check :: "store \<Rightarrow> body \<Rightarrow> response option" where
  "post_users_check st b =
     (if \<not> truthy (req_name b) \<or> \<not> truthy (req_email b) \<or> \<not> truthy (req_password b) \<or> \<not> truthy (req_age b)
      then Some \<lparr> status = 400, json = Failure ''Name, email, password, and age are required'' \<rparr>
      else
        (case email_toLowerCase (req_email b) of
           Inl error \<Rightarrow> Some (create_catch error)
         | Inr e \<Rightarrow>
             (case findOne st e of
                Some existingUser \<Rightarrow>
                  Some \<lparr> status = 400, json = Failure ''User with this email already exists'' \<rparr>
              | None \<Rightarrow> None)))"

text \<open>The rest of the handler: \<^verbatim>\<open>new User(...)\<close>, \<^verbatim>\<open>await newUser.save()\<close> on the
  collection as it is then, and the response.\<close>

definition post_users_save :: "env \<Rightarrow> store \<Rightarrow> body \<Rightarrow> response \<times> store" where
  "post_users_save e st b =
     (case save e st (User_new (req_name b) (req_email b) (req_password b) (parseInt (req_age b))) of
        Inl error \<Rightarrow> (create_catch error, st)
      | Inr (newUser, st') \<Rightarrow>
          (\<lparr> status = 201, json = UserCreated ''User created successfully'' (toJSON newUser) \<rparr>, st'))"

text \<open>One request served with no other request in between.\<close>

definition post_users :: "env \<Rightarrow> store \<Rightarrow> body \<Rightarrow> response \<times> store" where
  "post_users e st b =
     (case post_users_check st b of
        Some r \<Rightarrow> (r, st)
      | None \<Rightarrow> post_users_save e st b)"


section \<open>\<^verbatim>\<open>GET /api/users\<close>\<close>

record query =
  q_name :: "string option"
  q_email :: "string option"
  q_minAge :: "string option"
  q_maxAge :: "string option"

text \<open>
  The filter object: \<^verbatim>\<open>filter.name\<close> and \<^verbatim>\<open>filter.email\<close> carry the pattern of a
  \<^verbatim>\<open>$regex\<close> with option \<^verbatim>\<open>i\<close>; \<^verbatim>\<open>filter.age\<close> exists when one of the bounds is
  supplied, and then holds \<^verbatim>\<open>$gte\<close> and \<^verbatim>\<open>$lte\<close> for the supplied ones.
\<close>

record filter =
  f_name :: "string option"
  f_email :: "string option"
  f_age_gte :: "jsnum option"
  f_age_lte :: "jsnum option"

fun when_supplied :: "string option \<Rightarrow> string option" where
  "when_supplied None = None"
| "when_supplied (Some s) = (if s \<noteq> [] then Some s else None)"

definition build_filter :: "query \<Rightarrow> filter" where
  "build_filter q =
     \<lparr> f_name = when_supplied (q_name q),
       f_email = when_supplied (q_email q),
       f_age_gte =
         (if supplied (q_minAge q) \<or> supplied (q_maxAge q)
          then map_option parseInt_string (when_supplied (q_minAge q)) else None),
       f_age_lte =
         (if supplied (q_minAge q) \<or> supplied (q_maxAge q)
          then map_option parseInt_string (when_supplied (q_maxAge q)) else None) \<rparr>"

subsection \<open>Regular expressions of the database\<close>

text \<open>
  The database matches a \<^verbatim>\<open>$regex\<close> pattern anywhere in the field. A pattern made of
  ordinary characters and the wildcard \<^verbatim>\<open>.\<close> is matched here: an ordinary character
  stands for itself in either case, \<^verbatim>\<open>.\<close> for any character but a line feed. A pattern
  with another special character is left to the engine, a parameter: it answers with the
  matcher of the pattern, or with \<open>None\<close> when the pattern is not a regular expression.
\<close>

type_synonym regex_engine = "string \<Rightarrow> (string \<Rightarrow> bool) option"

definition special_chars :: "char list" where
  "special_chars =
     [CHR 0x5C, CHR ''^'', CHR ''$'', CHR ''|'', CHR ''?'', CHR ''*'', CHR ''+'',
      CHR ''('', CHR '')'', CHR ''['', CHR '']'', CHR ''{'', CHR ''}'']"

definition plain_pattern :: "string \<Rightarrow> bool" where
  "plain_pattern p = list_all (\<lambda>c. c \<notin> set special_chars) p"

definition char_matches :: "char \<Rightarrow> char \<Rightarrow> bool" where
  "char_matches pc c = (if pc = CHR ''.'' then c \<noteq> CHR 0x0A else lower_char pc = lower_char c)"

fun match_here :: "string \<Rightarrow> string \<Rightarrow> bool" where
  "match_here [] s = True"
| "match_here (pc # p) [] = False"
| "match_here (pc # p) (c # s) = (char_matches pc c \<and> match_here p s)"

fun search :: "string \<Rightarrow> string \<Rightarrow> bool" where
  "search p [] = match_here p []"
| "search p (c # s) = (match_here p (c # s) \<or> search p s)"

definition regex_i :: "regex_engine \<Rightarrow> string \<Rightarrow> (string \<Rightarrow> bool) option" where
  "regex_i pcre p = (if plain_pattern p then Some (search p) else pcre p)"

fun regex_filter :: "regex_engine \<Rightarrow> string option \<Rightarrow> (string \<Rightarrow> bool) option" where
  "regex_filter pcre None = Some (\<lambda>s. True)"
| "regex_filter pcre (Some p) = regex_i pcre p"

fun gte_ok :: "jsnum option \<Rightarrow> int \<Rightarrow> bool" where
  "gte_ok None a = True"
| "gte_ok (Some (Num n)) a = (n \<le> a)"
| "gte_ok (Some NaN) a = False"

fun lte_ok :: "jsnum option \<Rightarrow> int \<Rightarrow> bool" where
  "lte_ok None a = True"
| "lte_ok (Some (Num n)) a = (a \<le> n)"
| "lte_ok (Some NaN) a = False"

definition cast_error :: js_error where
  "cast_error = \<lparr> err_name = ''CastError'', err_message = ''Cast failed'', err_errors = [] \<rparr>"

definition regex_error :: js_error where
  "regex_error =
     \<lparr> err_name = ''MongoServerError'', err_message = ''Regular expression is invalid'',
       err_errors = [] \<rparr>"

text \<open>
  \<^verbatim>\<open>User.find(filter)\<close>: the query is cast by the schema (a \<^verbatim>\<open>NaN\<close> bound is refused),
  the database compiles the patterns, and the documents that meet every condition come
  back in the order of the collection.
\<close>

definition User_find :: "regex_engine \<Rightarrow> store \<Rightarrow> filter \<Rightarrow> js_error + user list" where
  "User_find pcre st f =
     (if f_age_gte f = Some NaN \<or> f_age_lte f = Some NaN then Inl cast_error
      else
        (case (regex_filter pcre (f_name f), regex_filter pcre (f_email f)) of
           (Some name_matches, Some email_matches) \<Rightarrow>
             Inr (filter (\<lambda>u. name_matches (user_name u) \<and> email_matches (user_email u) \<and>
                               gte_ok (f_age_gte f) (user_age u) \<and> lte_ok (f_age_lte f) (user_age u)) st)
         | _ \<Rightarrow> Inl regex_error))"

definition get_users :: "regex_engine \<Rightarrow> store \<Rightarrow> query \<Rightarrow> response" where
  "get_users pcre st q =
     (case User_find pcre st (build_filter q) of
        Inl error \<Rightarrow>
          \<lparr> status = 500, json = InternalFailure ''Error retrieving users'' (err_message error) \<rparr>
      | Inr found \<Rightarrow>
          (let users = map select_minus_password found
           in \<lparr> status = 200, json = UserList (length users) users \<rparr>))"

section \<open>\<^verbatim>\<open>GET /api/users/:id\<close> and \<^verbatim>\<open>DELETE /api/users/:id\<close>\<close>

text \<open>\<^verbatim>\<open>User.findById\<close> casts the identifier first; which strings are identifiers is the
  database driver's matter, a parameter here.\<close>

definition User_findById :: "(string \<Rightarrow> bool) \<Rightarrow> store \<Rightarrow> string \<Rightarrow> js_error + user option" where
  "User_findById valid_id st userId =
     (if valid_id userId then Inr (find (\<lambda>u. user_id u = userId) st) else Inl cast_error)"

definition get_user :: "(string \<Rightarrow> bool) \<Rightarrow> store \<Rightarrow> string \<Rightarrow> response" where
  "get_user valid_id st userId =
     (case User_findById valid_id st userId of
        Inl error \<Rightarrow>
          \<lparr> status = 500, json = InternalFailure ''Error retrieving user'' (err_message error) \<rparr>
      | Inr None \<Rightarrow> \<lparr> status = 404, json = Failure ''User not found'' \<rparr>
      | Inr (Some user) \<Rightarrow> \<lparr> status = 200, json = UserFound (select_minus_password user) \<rparr>)"

definition delete_user :: "(string \<Rightarrow> bool) \<Rightarrow> store \<Rightarrow> string \<Rightarrow> response \<times> store" where
  "delete_user valid_id st userId =
     (case User_findById valid_id st userId of
        Inl error \<Rightarrow>
          (\<lparr> status = 500, json = InternalFailure ''Error deleting user'' (err_message error) \<rparr>, st)
      | Inr None \<Rightarrow> (\<lparr> status = 404, json = Failure ''User not found'' \<rparr>, st)
      | Inr (Some deletedUser) \<Rightarrow>
          (\<lparr> status = 200,
             json = UserDeleted ''User deleted successfully'' (select_minus_password deletedUser) \<rparr>,
           remove1 deletedUser st))"

text \<open>The user records that a payload carries.\<close>

fun payload_users :: "payload \<Rightarrow> user list" where
  "payload_users (UserList n us) = us"
| "payload_users (UserFound u) = [u]"
| "payload_users (UserDeleted m u) = [u]"
| "payload_users (UserCreated m u) = [u]"
| "payload_users _ = []"


section \<open>Requests in flight together\<close>

text \<open>
  The server runs one handler at a time and switches between requests only at an
  \<^verbatim>\<open>await\<close>. A \<^verbatim>\<open>POST /api/users\<close> request therefore touches the collection in two
  separate steps: the read of \<^verbatim>\<open>findOne\<close> and the write of \<^verbatim>\<open>save\<close>. A schedule names,
  step by step, the request that moves next.
\<close>

datatype progress = Received | Checked | Responded response

type_synonym request = "env \<times> body \<times> progress"

fun step :: "store \<Rightarrow> request \<Rightarrow> store \<times> request" where
  "step st (e, b, Received) =
     (case post_users_check st b of
        Some r \<Rightarrow> (st, (e, b, Responded r))
      | None \<Rightarrow> (st, (e, b, Checked)))"
| "step st (e, b, Checked) =
     (case post_users_save e st b of (r, st') \<Rightarrow> (st', (e, b, Responded r)))"
| "step st (e, b, Responded r) = (st, (e, b, Responded r))"

fun run :: "nat list \<Rightarrow> store \<Rightarrow> request list \<Rightarrow> store \<times> request list" where
  "run [] st rs = (st, rs)"
| "run (i # schedule) st rs =
     (if i < length rs
      then (case step st (rs ! i) of (st', r') \<Rightarrow> run schedule st' (rs[i := r']))
      else run schedule st rs)"

definition responses :: "request list \<Rightarrow> progress list" where
  "responses rs = map (\<lambda>(e, b, p). p) rs"

section \<open>The Auth Service\<close>

text \<open>
  Modelled from the spec: \<^verbatim>\<open>controllers/authController.js\<close> (\<^verbatim>\<open>register\<close>, \<^verbatim>\<open>login\<close>,
  \<^verbatim>\<open>getProfile\<close>) and \<^verbatim>\<open>middleware/auth.js\<close> (token validation) are not among the source
  files; only their routes are. The definitions of this section follow sections 4.1, 4.2
  and 7 of the specification step by step. The token lifetime is the \<^verbatim>\<open>expiresIn: '24h'\<close>
  of \<^verbatim>\<open>config.js\<close>, in seconds.
\<close>

datatype failure =
    ValidationError "string list"
  | ConflictError
  | AuthenticationError string
  | NotFoundError
  | InternalError

text \<open>\<^verbatim>\<open>jwt.expiresIn\<close> of \<^verbatim>\<open>config.js\<close>, \<^verbatim>\<open>'24h'\<close>, in seconds.\<close>

definition jwt_expiresIn :: nat where
  "jwt_expiresIn = 24 * 60 * 60"

record claims =
  subject :: string
  issuedAt :: nat
  expiresAt :: nat

text \<open>Modelled from the spec: a token string of the missing token code, one that does not
  parse, or claims with a signature.\<close>

datatype token = Malformed string | Signed claims string

text \<open>The signer: the process secret, the signature function, and the verification of a
  plaintext against a stored hash; the primitives themselves are parameters.\<close>

record signer =
  secret :: string
  sign :: "string \<Rightarrow> claims \<Rightarrow> string"
  verify_password :: "string \<Rightarrow> string \<Rightarrow> bool"

text \<open>Modelled from the spec: the one authentication failure of section 7, the same for an
  unknown email, a wrong password and a token that is not valid.\<close>

definition invalid_credentials :: failure where
  "invalid_credentials = AuthenticationError ''invalid credentials''"

text \<open>Modelled from the spec: \<^verbatim>\<open>issueToken\<close> of the missing \<^verbatim>\<open>authController.js\<close>: claims
  with the subject, the time of issue and the expiry, signed with the process secret.\<close>

definition issueToken :: "signer \<Rightarrow> nat \<Rightarrow> user \<Rightarrow> token" where
  "issueToken sg now identity =
     (let c = \<lparr> subject = user_id identity, issuedAt = now, expiresAt = now + jwt_expiresIn \<rparr>
      in Signed c (sign sg (secret sg) c))"

text \<open>Modelled from the spec: \<^verbatim>\<open>validateToken\<close> of the missing \<^verbatim>\<open>middleware/auth.js\<close>:
  parse, verify the signature, check \<^verbatim>\<open>expiresAt > now\<close>, and yield the subject.\<close>

fun validateToken :: "signer \<Rightarrow> nat \<Rightarrow> token \<Rightarrow> failure + string" where
  "validateToken sg now (Malformed s) = Inl invalid_credentials"
| "validateToken sg now (Signed c signature) =
     (if signature \<noteq> sign sg (secret sg) c then Inl invalid_credentials
      else if expiresAt c > now then Inr (subject c)
      else Inl invalid_credentials)"

text \<open>Modelled from the spec: the sanitized record (no hash) and the lookups
  \<^verbatim>\<open>findByEmail\<close> and \<^verbatim>\<open>findById\<close> of the Credential Store, missing with the controller.\<close>

definition sanitize :: "user \<Rightarrow> user" where
  "sanitize u = u\<lparr> user_password := None \<rparr>"

definition findByEmail :: "store \<Rightarrow> string \<Rightarrow> user option" where
  "findByEmail st email = find (\<lambda>u. user_email u = email) st"

definition findById :: "store \<Rightarrow> string \<Rightarrow> user option" where
  "findById st ident = find (\<lambda>u. user_id u = ident) st"

text \<open>Modelled from the spec: the arguments of the missing \<^verbatim>\<open>register\<close>; an absent field
  is \<open>None\<close>.\<close>

record registration =
  reg_name :: "string option"
  reg_email :: "string option"
  reg_password :: "string option"
  reg_age :: "int option"

definition missing_of :: "registration \<Rightarrow> string list" where
  "missing_of r =
     (if reg_name r = None then [''name''] else []) @
     (if reg_email r = None then [''email''] else []) @
     (if reg_password r = None then [''password''] else []) @
     (if reg_age r = None then [''age''] else [])"

text \<open>Modelled from the spec: \<^verbatim>\<open>create\<close> of the Credential Store as \<^verbatim>\<open>register\<close> uses it,
  missing with the controller: the email must not exist yet and the fields must be within
  range; the plaintext is checked for its length and stored as its hash.\<close>

definition store_create ::
  "env \<Rightarrow> store \<Rightarrow> string \<Rightarrow> string \<Rightarrow> string \<Rightarrow> int \<Rightarrow> failure + (user \<times> store)" where
  "store_create e st name email password age =
     (if list_ex (\<lambda>u. user_email u = email) st then Inl ConflictError
      else if name = [] \<or> length password < 6 \<or> age < 1 \<or> 120 < age
      then Inl (ValidationError
                  ((if name = [] then [''name''] else []) @
                   (if length password < 6 then [''password''] else []) @
                   (if age < 1 \<or> 120 < age then [''age''] else [])))
      else
        (let u = \<lparr> user_id = object_id e,
                   user_name = name,
                   user_email = email,
                   user_password = Some (bcrypt_hash e password),
                   user_age = age,
                   user_createdAt = date_now e \<rparr>
         in Inr (u, st @ [u])))"

text \<open>Modelled from the spec: \<^verbatim>\<open>register\<close> of the missing \<^verbatim>\<open>authController.js\<close>: presence
  of the fields, lowercase email, \<^verbatim>\<open>create\<close>, then the sanitized record and a token.\<close>

definition register ::
  "signer \<Rightarrow> env \<Rightarrow> store \<Rightarrow> registration \<Rightarrow> (failure + (user \<times> token)) \<times> store" where
  "register sg e st r =
     (case (reg_name r, reg_email r, reg_password r, reg_age r) of
        (Some name, Some email, Some password, Some age) \<Rightarrow>
          (case store_create e st name (toLowerCase email) password age of
             Inl f \<Rightarrow> (Inl f, st)
           | Inr (u, st') \<Rightarrow> (Inr (sanitize u, issueToken sg (date_now e) u), st'))
      | _ \<Rightarrow> (Inl (ValidationError (missing_of r)), st))"

text \<open>Modelled from the spec: \<^verbatim>\<open>login\<close> of the missing \<^verbatim>\<open>authController.js\<close>: lowercase
  email, lookup, verification of the password against the hash, then the sanitized record
  and a token.\<close>

definition login :: "signer \<Rightarrow> nat \<Rightarrow> store \<Rightarrow> string \<Rightarrow> string \<Rightarrow> failure + (user \<times> token)" where
  "login sg now st email plaintextPassword =
     (case findByEmail st (toLowerCase email) of
        None \<Rightarrow> Inl invalid_credentials
      | Some u \<Rightarrow>
          (case user_password u of
             None \<Rightarrow> Inl invalid_credentials
           | Some passwordHash \<Rightarrow>
               if verify_password sg plaintextPassword passwordHash
               then Inr (sanitize u, issueToken sg now u)
               else Inl invalid_credentials))"

text \<open>Modelled from the spec: \<^verbatim>\<open>getProfile\<close> of the missing \<^verbatim>\<open>authController.js\<close> behind
  the token check: the identity of the token, resolved again by \<^verbatim>\<open>findById\<close>.\<close>

definition profile :: "signer \<Rightarrow> nat \<Rightarrow> store \<Rightarrow> token \<Rightarrow> failure + user" where
  "profile sg now st t =
     (case validateToken sg now t of
        Inl f \<Rightarrow> Inl f
      | Inr ident \<Rightarrow>
          (case findById st ident of
             None \<Rightarrow> Inl NotFoundError
           | Some u \<Rightarrow> Inr (sanitize u)))"

section \<open>Sample data\<close>

definition sample_env :: env where
  "sample_env =
     \<lparr> bcrypt_hash = (\<lambda>s. ''$2b$12$'' @ s),
       object_id = ''65a000000000000000000001'',
       date_now = 1000,
       validator_message = (\<lambda>p. p @ '' is invalid''),
       save_fault = None \<rparr>"

definition second_env :: env where
  "second_env = sample_env\<lparr> object_id := ''65a000000000000000000002'', date_now := 1001 \<rparr>"

definition john_body :: body where
  "john_body =
     \<lparr> req_name = JStr ''John Doe'',
       req_email = JStr ''John@Example.com'',
       req_password = JStr ''password123'',
       req_age = JNum 30 \<rparr>"

definition john :: user where
  "john =
     \<lparr> user_id = ''65a000000000000000000001'',
       user_name = ''John Doe'',
       user_email = ''john@example.com'',
       user_password = Some ''$2b$12$password123'',
       user_age = 30,
       user_createdAt = 1000 \<rparr>"

definition jane :: user where
  "jane =
     \<lparr> user_id = ''65a000000000000000000002'',
       user_name = ''Jane Roe'',
       user_email = ''jane@example.com'',
       user_password = Some ''$2b$12$secret99'',
       user_age = 22,
       user_createdAt = 1001 \<rparr>"

definition sample_signer :: signer where
  "sample_signer =
     \<lparr> secret = ''your-super-secret-jwt-key-change-this-in-production'',
       sign = (\<lambda>k c. k @ subject c),
       verify_password = (\<lambda>p h. h = ''$2b$12$'' @ p) \<rparr>"

definition no_engine :: regex_engine where
  "no_engine = (\<lambda>p. None)"


section \<open>Notions of the specification\<close>

text \<open>Case-insensitive containment of a substring, as the specification of \<^verbatim>\<open>list\<close>
  words it.\<close>

definition contains_ci :: "string \<Rightarrow> string \<Rightarrow> bool" where
  "contains_ci sub s = sublist (toLowerCase sub) (toLowerCase s)"

text \<open>The required fields that a request leaves out, and the required fields that a
  message names.\<close>

definition missing_fields :: "body \<Rightarrow> string list" where
  "missing_fields b =
     map fst (filter (\<lambda>(f, v). v = JUndefined)
       [(''name'', req_name b), (''email'', req_email b),
        (''password'', req_password b), (''age'', req_age b)])"

definition fields_named :: "string \<Rightarrow> string list" where
  "fields_named m = filter (\<lambda>f. contains_ci f m) [''name'', ''email'', ''password'', ''age'']"

text \<open>The filter of the specification's \<^verbatim>\<open>list\<close>: substrings and inclusive bounds.\<close>

definition spec_matches :: "string option \<Rightarrow> string option \<Rightarrow> int option \<Rightarrow> int option \<Rightarrow> user \<Rightarrow> bool" where
  "spec_matches name email minAge maxAge u =
     ((case name of None \<Rightarrow> True | Some n \<Rightarrow> contains_ci n (user_name u)) \<and>
      (case email of None \<Rightarrow> True | Some e \<Rightarrow> contains_ci e (user_email u)) \<and>
      (case minAge of None \<Rightarrow> True | Some lo \<Rightarrow> lo \<le> user_age u) \<and>
      (case maxAge of None \<Rightarrow> True | Some hi \<Rightarrow> user_age u \<le> hi))"

section \<open>Properties of \<^verbatim>\<open>POST /api/users\<close>\<close>

lemma findOne_None_iff: "findOne st e = None \<longleftrightarrow> \<not> list_ex (\<lambda>u. user_email u = e) st"
  by (auto simp add: findOne_def find_None_iff list_ex_iff)

lemma findOne_Some_if: "\<exists>u\<in>set st. user_email u = e \<Longrightarrow> \<exists>v. findOne st e = Some v"
  using findOne_None_iff [of st e] by (cases "findOne st e") (auto simp: list_ex_iff)

lemma create_catch_not_Failure: "json (create_catch error) \<noteq> Failure m"
  by (simp add: create_catch_def)

text \<open>
  C1, as amended. A \<^verbatim>\<open>POST /api/users\<close> request in which name, email, password and age are
  all present (truthy) and whose lowercased email is the email of a stored document gets the
  duplicate-email response, status 400 with the message \<^verbatim>\<open>User with this email already exists\<close>,
  and the collection is unchanged. That response is none of the responses of the \<^verbatim>\<open>catch\<close>
  block (validation failure, generic 500) and differs from the missing-fields response.
\<close>

theorem create_duplicate_email_conflict:
  assumes "truthy (req_name b)" and "truthy (req_password b)" and "truthy (req_age b)"
    and "req_email b = JStr e" and "e \<noteq> []"
    and "\<exists>u\<in>set st. user_email u = toLowerCase e"
  shows "post_users env st b =
           (\<lparr> status = 400, json = Failure ''User with this email already exists'' \<rparr>, st)
         \<and> (\<forall>error. create_catch error \<noteq>
               \<lparr> status = 400, json = Failure ''User with this email already exists'' \<rparr>)
         \<and> \<lparr> status = 400, json = Failure ''Name, email, password, and age are required'' \<rparr> \<noteq>
             \<lparr> status = 400, json = Failure ''User with this email already exists'' \<rparr>"
proof -
  obtain v where "findOne st (toLowerCase e) = Some v"
    using findOne_Some_if [OF assms(6)] by blast
  with assms(1-5) have "post_users env st b =
      (\<lparr> status = 400, json = Failure ''User with this email already exists'' \<rparr>, st)"
    by (simp add: post_users_def post_users_check_def)
  moreover have "\<forall>error. create_catch error \<noteq>
      \<lparr> status = 400, json = Failure ''User with this email already exists'' \<rparr>"
    using create_catch_not_Failure by (metis response.select_convs(2))
  ultimately show ?thesis by simp
qed

text \<open>Witness for C1: John is stored, and John registers again with another spelling.\<close>

theorem create_duplicate_email_conflict_witness:
  "post_users sample_env [john] john_body =
     (\<lparr> status = 400, json = Failure ''User with this email already exists'' \<rparr>, [john])"
  using create_duplicate_email_conflict [of john_body "''John@Example.com''" "[john]" sample_env]
  by (simp add: john_body_def john_def toLowerCase_def lower_char_def)

text \<open>
  Counterexample to C1 as stated: the email of the request is a stored email, but the name
  is absent, and the response is the missing-fields response, not the duplicate-email one.
\<close>

theorem duplicate_email_missing_name_counterexample:
  "email_toLowerCase (req_email (john_body\<lparr> req_name := JUndefined \<rparr>)) = Inr (user_email john)
   \<and> post_users sample_env [john] (john_body\<lparr> req_name := JUndefined \<rparr>) =
       (\<lparr> status = 400, json = Failure ''Name, email, password, and age are required'' \<rparr>, [john])
   \<and> fst (post_users sample_env [john] (john_body\<lparr> req_name := JUndefined \<rparr>)) \<noteq>
       \<lparr> status = 400, json = Failure ''User with this email already exists'' \<rparr>"
  by (simp add: john_body_def john_def toLowerCase_def lower_char_def post_users_def post_users_check_def)


lemma post_users_check_present:
  assumes "truthy (req_name b)" and "truthy (req_password b)" and "truthy (req_age b)"
    and "req_email b = JStr e" and "e \<noteq> []"
  shows "post_users_check st b =
           (if list_ex (\<lambda>u. user_email u = toLowerCase e) st
            then Some \<lparr> status = 400, json = Failure ''User with this email already exists'' \<rparr>
            else None)"
proof (cases "findOne st (toLowerCase e)")
  case None
  with assms show ?thesis
    using findOne_None_iff [of st "toLowerCase e"] by (simp add: post_users_check_def)
next
  case (Some v)
  with assms show ?thesis
    using findOne_None_iff [of st "toLowerCase e"] by (simp add: post_users_check_def)
qed

lemma status_create_catch: "status (create_catch error) \<noteq> 201"
  by (simp add: create_catch_def)

lemma post_users_check_status: "post_users_check st b = Some r \<Longrightarrow> status r \<noteq> 201"
  by (auto simp: post_users_check_def status_create_catch split: if_splits sum.splits option.splits)

lemma save_Inr:
  assumes "save env st d = Inr (u, st')"
  shows "st' = st @ [u] \<and> nu_email d = Some (user_email u) \<and> nu_age d = Num (user_age u)
         \<and> invalid_paths d = [] \<and> user_password u \<noteq> None"
  using assms
  by (auto simp: save_def Let_def split: option.splits jsnum.splits if_splits)

lemma post_users_save_created:
  assumes "post_users_save env st b = (r, st')" and "status r = 201"
  shows "\<exists>u. save env st (User_new (req_name b) (req_email b) (req_password b) (parseInt (req_age b)))
              = Inr (u, st') \<and> json r = UserCreated ''User created successfully'' (toJSON u)"
  using assms
  by (auto simp: post_users_save_def status_create_catch split: sum.splits prod.splits)

lemma post_users_created:
  assumes "post_users env st b = (r, st')" and "status r = 201"
  shows "post_users_check st b = None \<and> post_users_save env st b = (r, st')"
  using assms post_users_check_status [of st b]
  by (auto simp: post_users_def split: option.splits)

lemma check_None_email:
  assumes "post_users_check st b = None"
  shows "\<exists>e. req_email b = JStr e \<and> e \<noteq> [] \<and> findOne st (toLowerCase e) = None"
  using assms
  by (cases "req_email b")
     (auto simp: post_users_check_def split: if_splits sum.splits option.splits)

text \<open>
  C5. When \<^verbatim>\<open>POST /api/users\<close> creates a user, the request's email is a string, the
  collection grows by one document, and that document's email is the lowercase form of the
  submitted one. The check for an existing user compares the stored emails with that same
  lowercase form: with all fields present, the handler stops with the duplicate-email
  response exactly when a stored document carries it.
\<close>

theorem created_email_is_lowercase:
  "(post_users env st b = (r, st') \<and> status r = 201 \<longrightarrow>
      (\<exists>e u. req_email b = JStr e \<and> st' = st @ [u] \<and> user_email u = toLowerCase e
              \<and> \<not> list_ex (\<lambda>v. user_email v = toLowerCase e) st))
   \<and> (truthy (req_name b) \<and> truthy (req_password b) \<and> truthy (req_age b)
        \<and> req_email b = JStr e' \<and> e' \<noteq> [] \<longrightarrow>
      post_users_check st b =
        (if list_ex (\<lambda>v. user_email v = toLowerCase e') st
         then Some \<lparr> status = 400, json = Failure ''User with this email already exists'' \<rparr>
         else None))"
proof (intro conjI impI)
  assume a: "post_users env st b = (r, st') \<and> status r = 201"
  then have c: "post_users_check st b = None" and s: "post_users_save env st b = (r, st')"
    using post_users_created by blast+
  obtain e where e: "req_email b = JStr e" "findOne st (toLowerCase e) = None"
    using check_None_email [OF c] by blast
  obtain u where u: "save env st (User_new (req_name b) (req_email b) (req_password b) (parseInt (req_age b)))
      = Inr (u, st')"
    using post_users_save_created [OF s] a by blast
  have "st' = st @ [u]" and "user_email u = toLowerCase e"
    using save_Inr [OF u] e(1) by (auto simp: User_new_def)
  then show "\<exists>e u. req_email b = JStr e \<and> st' = st @ [u] \<and> user_email u = toLowerCase e
              \<and> \<not> list_ex (\<lambda>v. user_email v = toLowerCase e) st"
    using e findOne_None_iff by blast
next
  assume "truthy (req_name b) \<and> truthy (req_password b) \<and> truthy (req_age b)
        \<and> req_email b = JStr e' \<and> e' \<noteq> []"
  then show "post_users_check st b =
        (if list_ex (\<lambda>v. user_email v = toLowerCase e') st
         then Some \<lparr> status = 400, json = Failure ''User with this email already exists'' \<rparr>
         else None)"
    using post_users_check_present by blast
qed

lemma john_created:
  "post_users sample_env [] john_body =
     (\<lparr> status = 201, json = UserCreated ''User created successfully'' (john\<lparr> user_password := None \<rparr>) \<rparr>, [john])"
  by (simp add: post_users_def post_users_check_def post_users_save_def save_def User_new_def
      invalid_paths_def findOne_def toJSON_def john_body_def john_def sample_env_def
      toLowerCase_def lower_char_def Let_def)

text \<open>Witness for C5: \<^verbatim>\<open>John@Example.com\<close> is stored as \<^verbatim>\<open>john@example.com\<close>.\<close>

theorem created_email_is_lowercase_witness:
  "post_users sample_env [] john_body =
     (\<lparr> status = 201, json = UserCreated ''User created successfully'' (john\<lparr> user_password := None \<rparr>) \<rparr>, [john])
   \<and> req_email john_body = JStr ''John@Example.com''
   \<and> user_email john = ''john@example.com''
   \<and> (\<exists>e u. req_email john_body = JStr e \<and> [john] = [] @ [u] \<and> user_email u = toLowerCase e
              \<and> \<not> list_ex (\<lambda>v. user_email v = toLowerCase e) [])
   \<and> post_users_check [john] john_body =
        Some \<lparr> status = 400, json = Failure ''User with this email already exists'' \<rparr>"
proof -
  have t: "truthy (req_name john_body) \<and> truthy (req_password john_body) \<and> truthy (req_age john_body)
        \<and> req_email john_body = JStr ''John@Example.com'' \<and> ''John@Example.com'' \<noteq> []"
    by (simp add: john_body_def)
  have l: "list_ex (\<lambda>v. user_email v = toLowerCase ''John@Example.com'') [john]"
    by (simp add: john_def toLowerCase_def lower_char_def)
  show ?thesis
    using created_email_is_lowercase [where env = sample_env and st = "[]" and b = john_body
        and r = "\<lparr> status = 201, json = UserCreated ''User created successfully'' (john\<lparr> user_password := None \<rparr>) \<rparr>"
        and st' = "[john]"]
      created_email_is_lowercase [where st = "[john]" and b = john_body and e' = "''John@Example.com''"]
      john_created t l
    by (simp add: john_def john_body_def)
qed


lemma lower_required:
  "toLowerCase ''Name, email, password, and age are required'' =
     ''name, email, password, and age are required''"
  by (simp add: toLowerCase_def lower_char_def)

lemma lower_fields:
  "toLowerCase ''name'' = ''name''" "toLowerCase ''email'' = ''email''"
  "toLowerCase ''password'' = ''password''" "toLowerCase ''age'' = ''age''"
  by (simp_all add: toLowerCase_def lower_char_def)

lemma fields_named_required:
  "fields_named ''Name, email, password, and age are required'' =
     [''name'', ''email'', ''password'', ''age'']"
  by (simp add: fields_named_def contains_ci_def lower_required lower_fields sublist_Cons_right)

text \<open>
  C6, as amended. A \<^verbatim>\<open>POST /api/users\<close> request in which one or more of name, email,
  password and age are absent gets status 400 with the fixed message
  \<^verbatim>\<open>Name, email, password, and age are required\<close>, and nothing is stored. The message names
  all four required fields, whichever of them are missing.
\<close>

theorem create_missing_field_rejected:
  assumes "req_name b = JUndefined \<or> req_email b = JUndefined \<or> req_password b = JUndefined
           \<or> req_age b = JUndefined"
  shows "post_users env st b =
           (\<lparr> status = 400, json = Failure ''Name, email, password, and age are required'' \<rparr>, st)
         \<and> fields_named ''Name, email, password, and age are required'' =
             [''name'', ''email'', ''password'', ''age'']"
  using assms fields_named_required
  by (auto simp: post_users_def post_users_check_def)

text \<open>Witness for C6: John's request without the age.\<close>

theorem create_missing_field_rejected_witness:
  "req_age (john_body\<lparr> req_age := JUndefined \<rparr>) = JUndefined
   \<and> post_users sample_env [] (john_body\<lparr> req_age := JUndefined \<rparr>) =
       (\<lparr> status = 400, json = Failure ''Name, email, password, and age are required'' \<rparr>, [])"
  using create_missing_field_rejected [of "john_body\<lparr> req_age := JUndefined \<rparr>" sample_env "[]"]
  by simp

text \<open>
  Counterexample to C6 as stated: only the age is missing, and the fields that the
  response names are all four, not the missing one.
\<close>

theorem missing_fields_not_listed_counterexample:
  "missing_fields (john_body\<lparr> req_age := JUndefined \<rparr>) = [''age'']
   \<and> post_users sample_env [] (john_body\<lparr> req_age := JUndefined \<rparr>) =
       (\<lparr> status = 400, json = Failure ''Name, email, password, and age are required'' \<rparr>, [])
   \<and> fields_named ''Name, email, password, and age are required'' \<noteq>
       missing_fields (john_body\<lparr> req_age := JUndefined \<rparr>)"
  by (simp add: fields_named_required missing_fields_def john_body_def post_users_def
      post_users_check_def)


lemma parse_signed_truthy: "parseInt v = Num n \<Longrightarrow> n \<noteq> 0 \<Longrightarrow> truthy v"
  by (cases v) (auto simp: parseInt_string_def)

lemma invalid_paths_Nil_age:
  "invalid_paths d = [] \<Longrightarrow> nu_age d = Num n \<Longrightarrow> 1 \<le> n \<and> n \<le> 120"
  by (auto simp: invalid_paths_def split: if_splits)

lemma post_users_unchanged_or_created:
  "post_users env st b = (r, st') \<Longrightarrow> st' = st \<or> status r = 201"
  by (auto simp: post_users_def post_users_save_def split: option.splits sum.splits prod.splits)

lemma post_users_created_age:
  assumes "post_users env st b = (r, st')" and "status r = 201"
  shows "\<exists>u. st' = st @ [u] \<and> parseInt (req_age b) = Num (user_age u)
             \<and> 1 \<le> user_age u \<and> user_age u \<le> 120"
proof -
  have s: "post_users_save env st b = (r, st')"
    using post_users_created [OF assms] by simp
  obtain u where u: "save env st (User_new (req_name b) (req_email b) (req_password b) (parseInt (req_age b)))
      = Inr (u, st')"
    using post_users_save_created [OF s assms(2)] by blast
  have a: "st' = st @ [u]" "parseInt (req_age b) = Num (user_age u)"
    and i: "invalid_paths (User_new (req_name b) (req_email b) (req_password b) (parseInt (req_age b))) = []"
    using save_Inr [OF u] by (auto simp: User_new_def)
  have "1 \<le> user_age u \<and> user_age u \<le> 120"
    using invalid_paths_Nil_age [OF i, of "user_age u"] a(2) by (simp add: User_new_def)
  with a show ?thesis by blast
qed

lemma post_users_valid_created:
  assumes "req_name b = JStr nm" and "nm \<noteq> []" and "req_email b = JStr e" and "e \<noteq> []"
    and "req_password b = JStr pw" and "6 \<le> length pw"
    and "\<not> list_ex (\<lambda>u. user_email u = toLowerCase e) st" and "save_fault env = None"
    and "parseInt (req_age b) = Num n" and "1 \<le> n" and "n \<le> 120"
  shows "post_users env st b =
           (\<lparr> status = 201,
              json = UserCreated ''User created successfully''
                \<lparr> user_id = object_id env, user_name = nm, user_email = toLowerCase e,
                  user_password = None, user_age = n, user_createdAt = date_now env \<rparr> \<rparr>,
            st @ [\<lparr> user_id = object_id env, user_name = nm, user_email = toLowerCase e,
                    user_password = Some (bcrypt_hash env pw), user_age = n,
                    user_createdAt = date_now env \<rparr>])"
proof -
  have t: "truthy (req_age b)"
    using parse_signed_truthy [OF assms(9)] assms(10) by simp
  have pw: "pw \<noteq> []"
    using assms(6) by auto
  have c: "post_users_check st b = None"
    using post_users_check_present [where b = b and e = e and st = st] assms t pw by simp
  have le: "toLowerCase e \<noteq> []"
    using assms(4) by (simp add: toLowerCase_def)
  show ?thesis
    using assms c le pw
    by (simp add: post_users_def post_users_save_def save_def User_new_def invalid_paths_def
        toJSON_def Let_def)
qed

lemma create_age_rejected:
  assumes "parseInt (req_age b) = Num n" and "n < 1 \<or> 120 < n"
  shows "snd (post_users env st b) = st \<and> status (fst (post_users env st b)) \<noteq> 201"
proof -
  obtain r0 st0 where p: "post_users env st b = (r0, st0)"
    by (cases "post_users env st b") auto
  have "status r0 \<noteq> 201"
    using post_users_created_age [OF p] assms by auto
  moreover from this have "st0 = st"
    using post_users_unchanged_or_created [OF p] by simp
  ultimately show ?thesis using p by simp
qed

text \<open>
  C7. A \<^verbatim>\<open>POST /api/users\<close> request whose age reads as a number below 1 or above 120 (so
  0 and 121) is rejected and stores nothing. With a name, an email that is not stored yet, a
  password of six characters or more and a database that does not fail, an age from 1 to 120
  (so 1 and 120) is accepted and stored as it is. Whatever the request, the collection is
  afterwards unchanged or has grown by one document whose age lies in 1..120.
\<close>

theorem create_age_range:
  "(parseInt (req_age b) = Num n \<and> (n < 1 \<or> 120 < n) \<longrightarrow>
      snd (post_users env st b) = st \<and> status (fst (post_users env st b)) \<noteq> 201)
   \<and> (req_name b = JStr nm \<and> nm \<noteq> [] \<and> req_email b = JStr e \<and> e \<noteq> []
        \<and> req_password b = JStr pw \<and> 6 \<le> length pw
        \<and> \<not> list_ex (\<lambda>u. user_email u = toLowerCase e) st \<and> save_fault env = None
        \<and> parseInt (req_age b) = Num n \<and> 1 \<le> n \<and> n \<le> 120 \<longrightarrow>
      (\<exists>u. status (fst (post_users env st b)) = 201 \<and> snd (post_users env st b) = st @ [u]
           \<and> user_age u = n))
   \<and> (post_users env st b = (r, st') \<longrightarrow>
        st' = st \<or> (\<exists>u. st' = st @ [u] \<and> 1 \<le> user_age u \<and> user_age u \<le> 120))"
proof -
  have "parseInt (req_age b) = Num n \<and> (n < 1 \<or> 120 < n) \<longrightarrow>
      snd (post_users env st b) = st \<and> status (fst (post_users env st b)) \<noteq> 201"
    using create_age_rejected by blast
  moreover have "req_name b = JStr nm \<and> nm \<noteq> [] \<and> req_email b = JStr e \<and> e \<noteq> []
        \<and> req_password b = JStr pw \<and> 6 \<le> length pw
        \<and> \<not> list_ex (\<lambda>u. user_email u = toLowerCase e) st \<and> save_fault env = None
        \<and> parseInt (req_age b) = Num n \<and> 1 \<le> n \<and> n \<le> 120 \<longrightarrow>
      (\<exists>u. status (fst (post_users env st b)) = 201 \<and> snd (post_users env st b) = st @ [u]
           \<and> user_age u = n)"
    using post_users_valid_created [of b nm e pw st env n] by simp
  moreover have "post_users env st b = (r, st') \<longrightarrow>
        st' = st \<or> (\<exists>u. st' = st @ [u] \<and> 1 \<le> user_age u \<and> user_age u \<le> 120)"
    using post_users_unchanged_or_created [of env st b r st']
      post_users_created_age [of env st b r st'] by blast
  ultimately show ?thesis by blast
qed

lemma john_body_fields:
  "req_name (john_body\<lparr> req_age := a \<rparr>) = JStr ''John Doe''"
  "req_email (john_body\<lparr> req_age := a \<rparr>) = JStr ''John@Example.com''"
  "req_password (john_body\<lparr> req_age := a \<rparr>) = JStr ''password123''"
  "req_age (john_body\<lparr> req_age := a \<rparr>) = a"
  by (simp_all add: john_body_def)

text \<open>Witness for C7: John with the ages 0, 121, 1 and 120.\<close>

theorem create_age_range_witness:
  "snd (post_users sample_env [] (john_body\<lparr> req_age := JNum 0 \<rparr>)) = []
   \<and> status (fst (post_users sample_env [] (john_body\<lparr> req_age := JNum 0 \<rparr>))) \<noteq> 201
   \<and> snd (post_users sample_env [] (john_body\<lparr> req_age := JNum 121 \<rparr>)) = []
   \<and> status (fst (post_users sample_env [] (john_body\<lparr> req_age := JNum 121 \<rparr>))) \<noteq> 201
   \<and> (\<exists>u. status (fst (post_users sample_env [] (john_body\<lparr> req_age := JNum 1 \<rparr>))) = 201
          \<and> snd (post_users sample_env [] (john_body\<lparr> req_age := JNum 1 \<rparr>)) = [] @ [u]
          \<and> user_age u = 1)
   \<and> (\<exists>u. status (fst (post_users sample_env [] (john_body\<lparr> req_age := JNum 120 \<rparr>))) = 201
          \<and> snd (post_users sample_env [] (john_body\<lparr> req_age := JNum 120 \<rparr>)) = [] @ [u]
          \<and> user_age u = 120)"
proof -
  have f: "save_fault sample_env = None" by (simp add: sample_env_def)
  note t = create_age_range [where env = sample_env and st = "[]" and nm = "''John Doe''"
      and e = "''John@Example.com''" and pw = "''password123''"]
  show ?thesis
    using t [where b = "john_body\<lparr> req_age := JNum 0 \<rparr>" and n = 0]
      t [where b = "john_body\<lparr> req_age := JNum 121 \<rparr>" and n = 121]
      t [where b = "john_body\<lparr> req_age := JNum 1 \<rparr>" and n = 1]
      t [where b = "john_body\<lparr> req_age := JNum 120 \<rparr>" and n = 120]
      f
    by (simp add: john_body_fields)
qed


lemma save_duplicate:
  assumes "invalid_paths (User_new name (JStr e) password age) = []" and "save_fault env = None"
    and "list_ex (\<lambda>u. user_email u = toLowerCase e) st"
  shows "save env st (User_new name (JStr e) password age) = Inl duplicate_key_error"
proof -
  obtain nm pw n where "cast_string name = Some nm" and "cast_string password = Some pw"
      and "age = Num n"
    using assms(1)
    by (cases "cast_string name"; cases "cast_string password"; cases age)
       (auto simp: invalid_paths_def User_new_def split: if_splits)
  then show ?thesis
    using assms by (simp add: save_def User_new_def)
qed

text \<open>
  C10. When the \<^verbatim>\<open>save\<close> of a \<^verbatim>\<open>POST /api/users\<close> request fails with an error whose name is
  not \<^verbatim>\<open>ValidationError\<close>, the response is the generic failure: status 500, message
  \<^verbatim>\<open>Error creating user\<close>, with the error's own message, and nothing is stored. That is so
  in particular for the duplicate-key error of the unique index, which a valid request meets
  when the email has been stored between its \<^verbatim>\<open>findOne\<close> and its \<^verbatim>\<open>save\<close>: the response
  is this 500, not the status 400 of the duplicate-email response.
\<close>

theorem create_storage_error_is_generic:
  "(save env st (User_new (req_name b) (req_email b) (req_password b) (parseInt (req_age b))) = Inl error
      \<and> err_name error \<noteq> ''ValidationError'' \<longrightarrow>
      post_users_save env st b =
        (\<lparr> status = 500, json = InternalFailure ''Error creating user'' (err_message error) \<rparr>, st))
   \<and> (req_email b = JStr e
        \<and> invalid_paths (User_new (req_name b) (req_email b) (req_password b) (parseInt (req_age b))) = []
        \<and> save_fault env = None \<and> list_ex (\<lambda>u. user_email u = toLowerCase e) st \<longrightarrow>
      post_users_save env st b =
        (\<lparr> status = 500,
           json = InternalFailure ''Error creating user'' ''E11000 duplicate key error'' \<rparr>, st))"
proof -
  have "save env st (User_new (req_name b) (req_email b) (req_password b) (parseInt (req_age b))) = Inl error
      \<and> err_name error \<noteq> ''ValidationError'' \<longrightarrow>
      post_users_save env st b =
        (\<lparr> status = 500, json = InternalFailure ''Error creating user'' (err_message error) \<rparr>, st)"
    by (simp add: post_users_save_def create_catch_def)
  moreover have "req_email b = JStr e
        \<and> invalid_paths (User_new (req_name b) (req_email b) (req_password b) (parseInt (req_age b))) = []
        \<and> save_fault env = None \<and> list_ex (\<lambda>u. user_email u = toLowerCase e) st \<longrightarrow>
      post_users_save env st b =
        (\<lparr> status = 500,
           json = InternalFailure ''Error creating user'' ''E11000 duplicate key error'' \<rparr>, st)"
    using save_duplicate [of "req_name b" e "req_password b" "parseInt (req_age b)" env st]
    by (auto simp: post_users_save_def create_catch_def duplicate_key_error_def)
  ultimately show ?thesis by blast
qed

lemma john_new_valid:
  "invalid_paths (User_new (req_name john_body) (req_email john_body) (req_password john_body)
     (parseInt (req_age john_body))) = []"
  by (simp add: john_body_def User_new_def invalid_paths_def toLowerCase_def)

lemma john_stored: "list_ex (\<lambda>u. user_email u = toLowerCase ''John@Example.com'') [john]"
  by (simp add: john_def toLowerCase_def lower_char_def)

text \<open>Witness for C10: a lost connection during John's save, and John's save when John
  is already stored.\<close>

theorem create_storage_error_is_generic_witness:
  "save (sample_env\<lparr> save_fault := Some \<lparr> err_name = ''MongoNetworkError'', err_message = ''connection closed'', err_errors = [] \<rparr> \<rparr>) []
      (User_new (req_name john_body) (req_email john_body) (req_password john_body) (parseInt (req_age john_body)))
     = Inl \<lparr> err_name = ''MongoNetworkError'', err_message = ''connection closed'', err_errors = [] \<rparr>
   \<and> post_users_save (sample_env\<lparr> save_fault := Some \<lparr> err_name = ''MongoNetworkError'', err_message = ''connection closed'', err_errors = [] \<rparr> \<rparr>) [] john_body
     = (\<lparr> status = 500, json = InternalFailure ''Error creating user'' ''connection closed'' \<rparr>, [])
   \<and> post_users_save second_env [john] john_body
     = (\<lparr> status = 500, json = InternalFailure ''Error creating user'' ''E11000 duplicate key error'' \<rparr>, [john])"
proof -
  have s: "save (sample_env\<lparr> save_fault := Some \<lparr> err_name = ''MongoNetworkError'', err_message = ''connection closed'', err_errors = [] \<rparr> \<rparr>) []
      (User_new (req_name john_body) (req_email john_body) (req_password john_body) (parseInt (req_age john_body)))
     = Inl \<lparr> err_name = ''MongoNetworkError'', err_message = ''connection closed'', err_errors = [] \<rparr>"
    using john_new_valid
    by (simp add: save_def john_body_def User_new_def)
  have f: "save_fault second_env = None" "req_email john_body = JStr ''John@Example.com''"
    by (simp_all add: second_env_def sample_env_def john_body_def)
  show ?thesis
    using s f john_new_valid john_stored
      create_storage_error_is_generic [where env = "sample_env\<lparr> save_fault := Some \<lparr> err_name = ''MongoNetworkError'', err_message = ''connection closed'', err_errors = [] \<rparr> \<rparr>"
        and st = "[]" and b = john_body
        and error = "\<lparr> err_name = ''MongoNetworkError'', err_message = ''connection closed'', err_errors = [] \<rparr>"]
      create_storage_error_is_generic [where env = second_env and st = "[john]" and b = john_body
        and e = "''John@Example.com''"]
    by simp
qed

section \<open>Two requests with the same email\<close>

text \<open>
  C4, the code at the failing schedule. Two requests with John's body are in flight; both
  run their \<^verbatim>\<open>findOne\<close> on the empty collection before either saves. The first is
  created; the second meets the unique index in its \<^verbatim>\<open>save\<close> and is answered with the
  generic status 500, not with the duplicate-email response.
\<close>

theorem concurrent_create_race:
  "fst (run [0, 1, 0, 1] [] [(sample_env, john_body, Received), (second_env, john_body, Received)]) = [john]
   \<and> responses (snd (run [0, 1, 0, 1] [] [(sample_env, john_body, Received), (second_env, john_body, Received)])) =
       [Responded \<lparr> status = 201,
                    json = UserCreated ''User created successfully'' (john\<lparr> user_password := None \<rparr>) \<rparr>,
        Responded \<lparr> status = 500,
                    json = InternalFailure ''Error creating user'' ''E11000 duplicate key error'' \<rparr>]"
proof -
  have c: "post_users_check [] john_body = None"
    by (simp add: post_users_check_def john_body_def findOne_def)
  have s1: "post_users_save sample_env [] john_body =
      (\<lparr> status = 201, json = UserCreated ''User created successfully'' (john\<lparr> user_password := None \<rparr>) \<rparr>, [john])"
    using john_created by (simp add: post_users_def c)
  have s2: "post_users_save second_env [john] john_body =
      (\<lparr> status = 500, json = InternalFailure ''Error creating user'' ''E11000 duplicate key error'' \<rparr>, [john])"
    using save_duplicate [of "req_name john_body" "''John@Example.com''" "req_password john_body" "parseInt (req_age john_body)" second_env "[john]"]
      john_new_valid john_stored
    by (simp add: post_users_save_def create_catch_def duplicate_key_error_def john_body_def
        second_env_def sample_env_def)
  show ?thesis
    by (simp add: c s1 s2 responses_def)
qed

text \<open>Served one after the other, the same two requests end with the duplicate-email
  response for the second.\<close>

lemma sequential_create_conflict:
  "fst (run [0, 0, 1, 1] [] [(sample_env, john_body, Received), (second_env, john_body, Received)]) = [john]
   \<and> responses (snd (run [0, 0, 1, 1] [] [(sample_env, john_body, Received), (second_env, john_body, Received)])) =
       [Responded \<lparr> status = 201,
                    json = UserCreated ''User created successfully'' (john\<lparr> user_password := None \<rparr>) \<rparr>,
        Responded \<lparr> status = 400, json = Failure ''User with this email already exists'' \<rparr>]"
proof -
  have c: "post_users_check [] john_body = None"
    by (simp add: post_users_check_def john_body_def findOne_def)
  have s1: "post_users_save sample_env [] john_body =
      (\<lparr> status = 201, json = UserCreated ''User created successfully'' (john\<lparr> user_password := None \<rparr>) \<rparr>, [john])"
    using john_created by (simp add: post_users_def c)
  have c2: "post_users_check [john] john_body =
      Some \<lparr> status = 400, json = Failure ''User with this email already exists'' \<rparr>"
    using post_users_check_present [where b = john_body and e = "''John@Example.com''" and st = "[john]"]
      john_stored
    by (simp add: john_body_def)
  show ?thesis
    by (simp add: c s1 c2 responses_def)
qed


section \<open>Properties of \<^verbatim>\<open>GET /api/users\<close>\<close>

lemma match_here_plain:
  "CHR ''.'' \<notin> set p \<Longrightarrow> match_here p s = prefix (toLowerCase p) (toLowerCase s)"
proof (induction p s rule: match_here.induct)
  case (1 s)
  then show ?case by (simp add: toLowerCase_def)
next
  case (2 pc p)
  then show ?case by (simp add: toLowerCase_def)
next
  case (3 pc p c s)
  then show ?case by (auto simp: toLowerCase_def char_matches_def)
qed

lemma search_plain:
  "CHR ''.'' \<notin> set p \<Longrightarrow> search p s = contains_ci p s"
proof (induction s)
  case Nil
  then show ?case by (simp add: match_here_plain contains_ci_def toLowerCase_def)
next
  case (Cons c s)
  then show ?case
    by (simp add: match_here_plain contains_ci_def toLowerCase_def sublist_Cons_right)
qed

lemma supplied_when: "supplied p \<longleftrightarrow> when_supplied p \<noteq> None"
  by (cases p) auto

lemma build_filter_bounds:
  "f_age_gte (build_filter q) = map_option parseInt_string (when_supplied (q_minAge q))"
  "f_age_lte (build_filter q) = map_option parseInt_string (when_supplied (q_maxAge q))"
  "f_name (build_filter q) = when_supplied (q_name q)"
  "f_email (build_filter q) = when_supplied (q_email q)"
  by (auto simp: build_filter_def supplied_when)

lemma regex_filter_literal:
  assumes "\<forall>n. p = Some n \<longrightarrow> plain_pattern n \<and> CHR ''.'' \<notin> set n"
  shows "regex_filter pcre p = Some (\<lambda>s. case p of None \<Rightarrow> True | Some n \<Rightarrow> contains_ci n s)"
proof (cases p)
  case None
  then show ?thesis by simp
next
  case (Some n)
  with assms have "plain_pattern n" and "CHR ''.'' \<notin> set n" by auto
  then have "search n = contains_ci n"
    using search_plain by blast
  with Some \<open>plain_pattern n\<close> show ?thesis by (simp add: regex_i_def)
qed

lemma gte_ok_Num: "gte_ok (map_option Num lo) a = (case lo of None \<Rightarrow> True | Some l \<Rightarrow> l \<le> a)"
  by (cases lo) auto

lemma lte_ok_Num: "lte_ok (map_option Num hi) a = (case hi of None \<Rightarrow> True | Some h \<Rightarrow> a \<le> h)"
  by (cases hi) auto

lemma map_option_Num_not_NaN: "map_option Num v \<noteq> Some NaN"
  by (cases v) auto

text \<open>
  C9, as amended. When the supplied name and email patterns contain no special character
  of regular expressions (the dot included) and the supplied age bounds read as integers,
  \<^verbatim>\<open>GET /api/users\<close> answers with exactly the stored documents, password left out, that
  meet every supplied criterion: name and email contain the given text in either case, and
  the age lies within the supplied bounds, inclusive; an empty or absent parameter imposes
  nothing. In general the name and the email are matched as regular expressions.
\<close>

theorem list_matches_filter:
  assumes "\<forall>n. when_supplied (q_name q) = Some n \<longrightarrow> plain_pattern n \<and> CHR ''.'' \<notin> set n"
    and "\<forall>n. when_supplied (q_email q) = Some n \<longrightarrow> plain_pattern n \<and> CHR ''.'' \<notin> set n"
    and "map_option parseInt_string (when_supplied (q_minAge q)) = map_option Num minAge"
    and "map_option parseInt_string (when_supplied (q_maxAge q)) = map_option Num maxAge"
  shows "get_users pcre st q =
           \<lparr> status = 200,
             json = UserList
               (length (filter (spec_matches (when_supplied (q_name q)) (when_supplied (q_email q)) minAge maxAge) st))
               (map select_minus_password
                 (filter (spec_matches (when_supplied (q_name q)) (when_supplied (q_email q)) minAge maxAge) st)) \<rparr>"
proof -
  have m: "spec_matches (when_supplied (q_name q)) (when_supplied (q_email q)) minAge maxAge =
      (\<lambda>u. (case when_supplied (q_name q) of None \<Rightarrow> True | Some n \<Rightarrow> contains_ci n (user_name u)) \<and>
           (case when_supplied (q_email q) of None \<Rightarrow> True | Some n \<Rightarrow> contains_ci n (user_email u)) \<and>
           (case minAge of None \<Rightarrow> True | Some l \<Rightarrow> l \<le> user_age u) \<and>
           (case maxAge of None \<Rightarrow> True | Some h \<Rightarrow> user_age u \<le> h))"
    by (rule ext) (simp add: spec_matches_def)
  have "User_find pcre st (build_filter q) =
      Inr (filter (spec_matches (when_supplied (q_name q)) (when_supplied (q_email q)) minAge maxAge) st)"
    using assms(3,4)
    by (simp add: User_find_def build_filter_bounds regex_filter_literal [OF assms(1)]
        regex_filter_literal [OF assms(2)] map_option_Num_not_NaN gte_ok_Num lte_ok_Num m)
  then show ?thesis by (simp add: get_users_def)
qed


lemma lower_john:
  "toLowerCase ''Doe'' = ''doe''" "toLowerCase ''John Doe'' = ''john doe''"
  "toLowerCase ''john@example.com'' = ''john@example.com''"
  "toLowerCase ''jane@example.com'' = ''jane@example.com''"
  "toLowerCase ''EXAMPLE'' = ''example''" "toLowerCase ''Jane Roe'' = ''jane roe''"
  "toLowerCase ''john.example'' = ''john.example''"
  by (simp_all add: toLowerCase_def lower_char_def)

text \<open>Witness for C9: John and Jane are stored, and the query asks for \<^verbatim>\<open>Doe\<close>,
  \<^verbatim>\<open>EXAMPLE\<close>, a minimum age of 25 and an empty maximum.\<close>

theorem list_matches_filter_witness:
  "get_users no_engine [john, jane]
     \<lparr> q_name = Some ''Doe'', q_email = Some ''EXAMPLE'', q_minAge = Some ''25'', q_maxAge = Some [] \<rparr> =
     \<lparr> status = 200, json = UserList 1 [john\<lparr> user_password := None \<rparr>] \<rparr>"
proof -
  have p: "plain_pattern ''Doe''" "plain_pattern ''EXAMPLE''"
    by (simp_all add: plain_pattern_def special_chars_def)
  have n: "parseInt_string ''25'' = Num 25"
    by (simp add: parseInt_string_def is_space_def dec_digit_def)
  have f: "filter (spec_matches (Some ''Doe'') (Some ''EXAMPLE'') (Some 25) None) [john, jane] = [john]"
    by (simp add: spec_matches_def contains_ci_def john_def jane_def lower_john sublist_Cons_right)
  show ?thesis
    using list_matches_filter [where pcre = no_engine and st = "[john, jane]"
        and q = "\<lparr> q_name = Some ''Doe'', q_email = Some ''EXAMPLE'', q_minAge = Some ''25'', q_maxAge = Some [] \<rparr>"
        and minAge = "Some 25" and maxAge = None] p n f
    by (simp add: select_minus_password_def)
qed

text \<open>
  Counterexample to C9 as stated: the email pattern \<^verbatim>\<open>john.example\<close> is not contained in
  \<^verbatim>\<open>john@example.com\<close>, yet John is listed, since the dot of a regular expression stands
  for any character.
\<close>

theorem list_regex_counterexample:
  "get_users no_engine [john]
     \<lparr> q_name = None, q_email = Some ''john.example'', q_minAge = None, q_maxAge = None \<rparr> =
     \<lparr> status = 200, json = UserList 1 [john\<lparr> user_password := None \<rparr>] \<rparr>
   \<and> \<not> contains_ci ''john.example'' (user_email john)
   \<and> filter (spec_matches None (Some ''john.example'') None None) [john] = []"
proof -
  have c: "\<not> contains_ci ''john.example'' (user_email john)"
    by (simp add: contains_ci_def john_def lower_john sublist_Cons_right)
  have p: "plain_pattern ''john.example''"
    by (simp add: plain_pattern_def special_chars_def)
  have s: "search ''john.example'' ''john@example.com''"
    by (simp add: char_matches_def)
  have "get_users no_engine [john]
     \<lparr> q_name = None, q_email = Some ''john.example'', q_minAge = None, q_maxAge = None \<rparr> =
     \<lparr> status = 200, json = UserList 1 [john\<lparr> user_password := None \<rparr>] \<rparr>"
    using p s
    by (simp add: get_users_def User_find_def build_filter_def regex_i_def
        select_minus_password_def john_def)
  with c show ?thesis by (simp add: spec_matches_def)
qed


section \<open>What leaves the service\<close>

lemma post_users_no_password:
  "u \<in> set (payload_users (json (fst (post_users env st b)))) \<Longrightarrow> user_password u = None"
  by (auto simp: post_users_def post_users_check_def post_users_save_def create_catch_def toJSON_def
      split: option.splits sum.splits prod.splits if_splits)

lemma get_users_no_password:
  "u \<in> set (payload_users (json (get_users pcre st q))) \<Longrightarrow> user_password u = None"
  by (auto simp: get_users_def select_minus_password_def Let_def split: sum.splits)

lemma get_user_no_password:
  "u \<in> set (payload_users (json (get_user valid_id st userId))) \<Longrightarrow> user_password u = None"
  by (auto simp: get_user_def select_minus_password_def split: sum.splits option.splits)

lemma delete_user_no_password:
  "u \<in> set (payload_users (json (fst (delete_user valid_id st userId)))) \<Longrightarrow> user_password u = None"
  by (auto simp: delete_user_def select_minus_password_def split: sum.splits option.splits)

lemma register_no_password:
  "fst (register sg env st r) = Inr (u, t) \<Longrightarrow> user_password u = None"
  by (auto simp: register_def sanitize_def split: option.splits sum.splits prod.splits)

lemma login_no_password:
  "login sg now st email pw = Inr (u, t) \<Longrightarrow> user_password u = None"
  by (auto simp: login_def sanitize_def split: option.splits if_splits)

lemma profile_no_password:
  "profile sg now st t = Inr u \<Longrightarrow> user_password u = None"
  by (auto simp: profile_def sanitize_def split: option.splits sum.splits)

text \<open>
  C3. No user record that an operation hands to its caller carries the password hash: not
  the created user of \<^verbatim>\<open>POST /api/users\<close>, not the listed users of \<^verbatim>\<open>GET /api/users\<close>, not
  the user of \<^verbatim>\<open>GET /api/users/:id\<close>, not the deleted user of \<^verbatim>\<open>DELETE /api/users/:id\<close>,
  and not the record that \<^verbatim>\<open>register\<close>, \<^verbatim>\<open>login\<close> or \<^verbatim>\<open>profile\<close> return on success.
\<close>

theorem no_password_in_payload:
  "(\<forall>u\<in>set (payload_users (json (fst (post_users env st b)))). user_password u = None)
   \<and> (\<forall>u\<in>set (payload_users (json (get_users pcre st q))). user_password u = None)
   \<and> (\<forall>u\<in>set (payload_users (json (get_user valid_id st userId))). user_password u = None)
   \<and> (\<forall>u\<in>set (payload_users (json (fst (delete_user valid_id st userId)))). user_password u = None)
   \<and> (\<forall>u t. fst (register sg env st r) = Inr (u, t) \<longrightarrow> user_password u = None)
   \<and> (\<forall>u t. login sg now st email pw = Inr (u, t) \<longrightarrow> user_password u = None)
   \<and> (\<forall>u. profile sg now st tok = Inr u \<longrightarrow> user_password u = None)"
  by (intro conjI ballI allI impI;
      erule post_users_no_password get_users_no_password get_user_no_password
        delete_user_no_password register_no_password login_no_password profile_no_password)

lemma sample_payloads:
  "payload_users (json (fst (post_users sample_env [] john_body))) = [john\<lparr> user_password := None \<rparr>]"
  "payload_users (json (get_users no_engine [john] \<lparr> q_name = None, q_email = None, q_minAge = None, q_maxAge = None \<rparr>))
     = [john\<lparr> user_password := None \<rparr>]"
  "payload_users (json (get_user (\<lambda>i. True) [john] ''65a000000000000000000001'')) = [john\<lparr> user_password := None \<rparr>]"
  "payload_users (json (fst (delete_user (\<lambda>i. True) [john] ''65a000000000000000000001''))) = [john\<lparr> user_password := None \<rparr>]"
     apply (simp add: john_created)
    apply (simp add: get_users_def User_find_def build_filter_def select_minus_password_def)
   apply (simp add: get_user_def User_findById_def select_minus_password_def john_def)
  apply (simp add: delete_user_def User_findById_def select_minus_password_def john_def)
  done

lemma sample_login:
  "login sample_signer 2000 [john] ''John@Example.com'' ''password123'' =
     Inr (john\<lparr> user_password := None \<rparr>, issueToken sample_signer 2000 john)"
  by (simp add: login_def findByEmail_def john_def toLowerCase_def lower_char_def sample_signer_def
      sanitize_def)

lemma sample_profile:
  "profile sample_signer 3000 [john] (issueToken sample_signer 2000 john) = Inr (john\<lparr> user_password := None \<rparr>)"
  by (simp add: profile_def issueToken_def Let_def jwt_expiresIn_def findById_def john_def sanitize_def)

text \<open>Witness for C3: each operation returns John, whose stored record has a hash,
  without it.\<close>

theorem no_password_in_payload_witness:
  "user_password john \<noteq> None
   \<and> map user_password (payload_users (json (fst (post_users sample_env [] john_body)))) = [None]
   \<and> map user_password (payload_users (json (get_users no_engine [john]
         \<lparr> q_name = None, q_email = None, q_minAge = None, q_maxAge = None \<rparr>))) = [None]
   \<and> map user_password (payload_users (json (get_user (\<lambda>i. True) [john] ''65a000000000000000000001'')))
       = [None]
   \<and> map user_password (payload_users (json (fst (delete_user (\<lambda>i. True) [john] ''65a000000000000000000001''))))
       = [None]
   \<and> login sample_signer 2000 [john] ''John@Example.com'' ''password123'' =
       Inr (john\<lparr> user_password := None \<rparr>, issueToken sample_signer 2000 john)
   \<and> profile sample_signer 3000 [john] (issueToken sample_signer 2000 john) =
       Inr (john\<lparr> user_password := None \<rparr>)"
proof -
  have h: "user_password john \<noteq> None"
    by (simp add: john_def)
  show ?thesis
    using no_password_in_payload [where env = sample_env and st = "[]" and b = john_body]
      no_password_in_payload [where st = "[john]" and pcre = no_engine
        and q = "\<lparr> q_name = None, q_email = None, q_minAge = None, q_maxAge = None \<rparr>"
        and valid_id = "\<lambda>i. True" and userId = "''65a000000000000000000001''"
        and sg = sample_signer and now = 2000 and email = "''John@Example.com''"
        and pw = "''password123''"]
      no_password_in_payload [where st = "[john]" and sg = sample_signer and now = 3000
        and tok = "issueToken sample_signer 2000 john"]
      sample_payloads sample_login sample_profile h
    by simp
qed

section \<open>Properties of the Auth Service\<close>

text \<open>
  C2. A \<^verbatim>\<open>login\<close> with an email that no record has and a \<^verbatim>\<open>login\<close> with the email of a
  record and a password that does not verify against its hash fail with the same value:
  an \<^verbatim>\<open>AuthenticationError\<close> with the message \<^verbatim>\<open>invalid credentials\<close>.
\<close>

theorem login_failure_uniform:
  "(findByEmail st (toLowerCase unknownEmail) = None \<longrightarrow>
      login sg now st unknownEmail anyPassword = Inl (AuthenticationError ''invalid credentials''))
   \<and> (findByEmail st (toLowerCase email) = Some u \<and> user_password u = Some passwordHash
        \<and> \<not> verify_password sg wrongPassword passwordHash \<longrightarrow>
      login sg now st email wrongPassword = Inl (AuthenticationError ''invalid credentials''))"
  by (simp add: login_def invalid_credentials_def)

text \<open>Witness for C2: an unknown email, and John's email with a wrong password.\<close>

theorem login_failure_uniform_witness:
  "findByEmail [john] (toLowerCase ''nobody@example.com'') = None
   \<and> login sample_signer 2000 [john] ''nobody@example.com'' ''password123'' =
       Inl (AuthenticationError ''invalid credentials'')
   \<and> findByEmail [john] (toLowerCase ''John@Example.com'') = Some john
   \<and> \<not> verify_password sample_signer ''wrong'' ''$2b$12$password123''
   \<and> login sample_signer 2000 [john] ''John@Example.com'' ''wrong'' =
       Inl (AuthenticationError ''invalid credentials'')"
proof -
  have a: "findByEmail [john] (toLowerCase ''nobody@example.com'') = None"
    by (simp add: findByEmail_def john_def toLowerCase_def lower_char_def)
  have b: "findByEmail [john] (toLowerCase ''John@Example.com'') = Some john"
    by (simp add: findByEmail_def john_def toLowerCase_def lower_char_def)
  have c: "user_password john = Some ''$2b$12$password123''"
    by (simp add: john_def)
  have d: "\<not> verify_password sample_signer ''wrong'' ''$2b$12$password123''"
    by (simp add: sample_signer_def)
  show ?thesis
    using a b c d
      login_failure_uniform [where st = "[john]" and unknownEmail = "''nobody@example.com''"
        and sg = sample_signer and now = 2000 and anyPassword = "''password123''"]
      login_failure_uniform [where st = "[john]" and email = "''John@Example.com''" and u = john
        and passwordHash = "''$2b$12$password123''" and sg = sample_signer
        and wrongPassword = "''wrong''" and now = 2000]
    by simp
qed

text \<open>
  C8. Validating the token issued for an identity yields that identity's id at any time
  before the expiry, 24 hours after the issue, and fails with the authentication error at
  the expiry and after it.
\<close>

theorem token_roundtrip:
  "validateToken sg now (issueToken sg issued identity) =
     (if now < issued + 24 * 60 * 60 then Inr (user_id identity)
      else Inl (AuthenticationError ''invalid credentials''))"
  by (simp add: issueToken_def Let_def jwt_expiresIn_def invalid_credentials_def)

text \<open>Witness for C8: one second before the expiry and at the expiry.\<close>

theorem token_roundtrip_witness:
  "validateToken sample_signer (1000 + 86399) (issueToken sample_signer 1000 john) = Inr (user_id john)
   \<and> validateToken sample_signer (1000 + 86400) (issueToken sample_signer 1000 john) =
       Inl (AuthenticationError ''invalid credentials'')"
  using token_roundtrip [of sample_signer "1000 + 86399" 1000 john]
    token_roundtrip [of sample_signer "1000 + 86400" 1000 john]
  by simp

end
